theory Spec2Isabelle
  imports Main
begin

section \<open>The authenticated-request client of \<^verbatim>\<open>front-end/shared/api-connection.js\<close>\<close>

text \<open>
  The class \<^verbatim>\<open>EvergrowAPI\<close> keeps an access token and a refresh token in memory,
  mirrors them to \<^verbatim>\<open>localStorage\<close>, attaches the access token to outgoing requests,
  refreshes it after a 401 answer and retries the request once, and arms a timer for a
  refresh five minutes before the token expires.

  The embedding passes the state explicitly. Everything the class can change or emit is
  a field of the record \<open>world\<close>: the two token slots, the storage, the page location,
  the log of the \<^verbatim>\<open>fetch\<close> calls issued, the timers armed and the lines written by
  \<^verbatim>\<open>console.error\<close>. An exception is a value \<open>Inl e\<close> of a sum type, so every
  \<^verbatim>\<open>throw\<close> and every \<^verbatim>\<open>catch\<close> of the source is a branch of the model.
\<close>

subsection \<open>JavaScript values\<close>

text \<open>
  The values held in the token slots and read off parsed JSON objects: absent
  (\<^verbatim>\<open>undefined\<close>), \<^verbatim>\<open>null\<close>, an integer number or a string. Booleans, fractional
  numbers, arrays and nested objects in these positions are outside the model.
\<close>

datatype jsval = JUndefined | JNull | JNum int | JStr string

text \<open>Numbers as the arithmetic of \<^verbatim>\<open>setupTokenRefresh\<close> sees them: an integer or NaN.\<close>

datatype jsnum = NaN | Fin int

text \<open>
  A parsed JSON document: \<^verbatim>\<open>null\<close>, or an object given by its members (each name
  once). Top-level scalars and arrays are outside the model.
\<close>

datatype json = JsonNull | JsonObj "(string \<times> jsval) list"

datatype error =
    NetworkError string
  | InvalidCharacterError
  | SyntaxError
  | TypeError
  | Error string

text \<open>Truthiness, as tested by \<^verbatim>\<open>if (v)\<close>, \<^verbatim>\<open>!!v\<close> and \<^verbatim>\<open>a || b\<close>.\<close>

fun truthy :: "jsval \<Rightarrow> bool" where
  "truthy JUndefined = False"
| "truthy JNull = False"
| "truthy (JNum n) = (n \<noteq> 0)"
| "truthy (JStr s) = (s \<noteq> [])"

fun show_nat :: "nat \<Rightarrow> string" where
  "show_nat n =
     (if n < 10 then [''0123456789'' ! n]
      else show_nat (n div 10) @ [''0123456789'' ! (n mod 10)])"

declare show_nat.simps [simp del]

definition show_int :: "int \<Rightarrow> string" where
  "show_int i = (if i < 0 then CHR ''-'' # show_nat (nat (- i)) else show_nat (nat i))"

text \<open>
  String conversion, as done by a template literal and by \<^verbatim>\<open>localStorage.setItem\<close>
  (decimal notation for numbers: exact below \<open>10^21\<close>).
\<close>

fun to_string :: "jsval \<Rightarrow> string" where
  "to_string JUndefined = ''undefined''"
| "to_string JNull = ''null''"
| "to_string (JNum n) = show_int n"
| "to_string (JStr s) = s"

text \<open>
  A property read \<^verbatim>\<open>v.k\<close> on a parsed document: a TypeError on \<^verbatim>\<open>null\<close>, the member
  or \<^verbatim>\<open>undefined\<close> on an object.
\<close>

fun get_prop :: "json \<Rightarrow> string \<Rightarrow> error + jsval" where
  "get_prop JsonNull k = Inl TypeError"
| "get_prop (JsonObj kvs) k = (case map_of kvs k of None \<Rightarrow> Inr JUndefined | Some v \<Rightarrow> Inr v)"

text \<open>\<^verbatim>\<open>s.split(c)\<close> for a one-character separator: never empty, \<^verbatim>\<open>''.split('.')\<close> is \<^verbatim>\<open>['']\<close>.\<close>

fun split :: "char \<Rightarrow> string \<Rightarrow> string list" where
  "split c [] = [[]]"
| "split c (x # xs) =
     (if x = c then [] # split c xs
      else (case split c xs of [] \<Rightarrow> [[x]] | y # ys \<Rightarrow> (x # y) # ys))"

text \<open>\<^verbatim>\<open>s.includes(t)\<close>: \<open>t\<close> occurs in \<open>s\<close> as a contiguous substring.\<close>

fun starts_with :: "string \<Rightarrow> string \<Rightarrow> bool" where
  "starts_with s [] = True"
| "starts_with [] (y # ys) = False"
| "starts_with (x # xs) (y # ys) = (x = y \<and> starts_with xs ys)"

fun includes_str :: "string \<Rightarrow> string \<Rightarrow> bool" where
  "includes_str [] t = (t = [])"
| "includes_str (x # xs) t = (starts_with (x # xs) t \<or> includes_str xs t)"

subsection \<open>The platform\<close>

text \<open>
  The built-ins the class calls and does not define are parameters: \<^verbatim>\<open>atob\<close> (\<open>None\<close>
  when it throws InvalidCharacterError), \<^verbatim>\<open>JSON.parse\<close> (\<open>None\<close> when it throws
  SyntaxError) and the conversion of a string to a number done by \<^verbatim>\<open>*\<close>. Every theorem
  below holds for any platform.
\<close>

record platform =
  atob :: "string \<Rightarrow> string option"
  json_parse :: "string \<Rightarrow> json option"
  string_to_number :: "string \<Rightarrow> jsnum"

fun to_number :: "platform \<Rightarrow> jsval \<Rightarrow> jsnum" where
  "to_number P JUndefined = NaN"
| "to_number P JNull = Fin 0"
| "to_number P (JNum n) = Fin n"
| "to_number P (JStr s) = string_to_number P s"

fun js_mul :: "jsnum \<Rightarrow> jsnum \<Rightarrow> jsnum" where
  "js_mul (Fin a) (Fin b) = Fin (a * b)"
| "js_mul a b = NaN"

fun js_sub :: "jsnum \<Rightarrow> jsnum \<Rightarrow> jsnum" where
  "js_sub (Fin a) (Fin b) = Fin (a - b)"
| "js_sub a b = NaN"

text \<open>\<^verbatim>\<open>a > b\<close>: false as soon as one side is NaN.\<close>

fun js_gt :: "jsnum \<Rightarrow> jsnum \<Rightarrow> bool" where
  "js_gt (Fin a) (Fin b) = (b < a)"
| "js_gt a b = False"

subsection \<open>Requests, responses and the world\<close>

text \<open>The second argument of \<^verbatim>\<open>fetch\<close>, with the URL.\<close>

record request =
  req_url :: string
  req_method :: "string option"
  req_body :: "string option"
  req_headers :: "string \<rightharpoonup> string"
  req_mode :: "string option"
  req_credentials :: "string option"

text \<open>The \<^verbatim>\<open>options\<close> argument of \<^verbatim>\<open>makeRequest\<close>; a missing \<^verbatim>\<open>headers\<close> is the empty map.\<close>

record options =
  opt_method :: "string option"
  opt_body :: "string option"
  opt_headers :: "string \<rightharpoonup> string"
  opt_mode :: "string option"
  opt_credentials :: "string option"

text \<open>
  A response: \<open>contentType\<close> is \<^verbatim>\<open>headers.get('content-type')\<close> (\<open>None\<close> for
  \<^verbatim>\<open>null\<close>), \<open>jsonBody\<close> what \<^verbatim>\<open>await response.json()\<close> gives (\<open>None\<close> when it
  rejects).
\<close>

record response =
  status :: nat
  statusText :: string
  contentType :: "string option"
  jsonBody :: "json option"

definition ok :: "response \<Rightarrow> bool" where
  "ok r = (200 \<le> status r \<and> status r \<le> 299)"

datatype fetch_result = Rejected string | Resolved response

text \<open>What \<^verbatim>\<open>handleResponse\<close> returns: the parsed data, or the response itself.\<close>

datatype reply = Data json | Raw response

record world =
  baseURL :: string
  token :: jsval
  refreshToken :: jsval
  localStorage :: "string \<rightharpoonup> string"
  href :: string
  fetches :: "request list"
  timers :: "jsnum list"
  console :: "string list"

text \<open>
  The network answers the \<open>n\<close>-th \<^verbatim>\<open>fetch\<close> of the page; every call settles.
\<close>

type_synonym network = "nat \<Rightarrow> request \<Rightarrow> fetch_result"

definition send :: "request \<Rightarrow> world \<Rightarrow> world" where
  "send req w = w\<lparr>fetches := fetches w @ [req]\<rparr>"

definition fetch :: "network \<Rightarrow> request \<Rightarrow> world \<Rightarrow> fetch_result \<times> world" where
  "fetch net req w = (net (length (fetches w)) req, send req w)"

definition console_error :: "string \<Rightarrow> world \<Rightarrow> world" where
  "console_error msg w = w\<lparr>console := console w @ [msg]\<rparr>"

subsection \<open>The credential store\<close>

definition getAPIBaseURL :: "string \<Rightarrow> string" where
  "getAPIBaseURL hostname =
     (if hostname = ''localhost'' \<or> hostname = ''127.0.0.1'' then ''http://localhost:5001''
      else ''https://api.evergrow360.com'')"

definition getItem :: "(string \<rightharpoonup> string) \<Rightarrow> string \<Rightarrow> jsval" where
  "getItem store k = (case store k of None \<Rightarrow> JNull | Some s \<Rightarrow> JStr s)"

definition setTokens :: "jsval \<Rightarrow> jsval \<Rightarrow> world \<Rightarrow> world" where
  "setTokens accessToken refreshTok w =
     w\<lparr>token := accessToken,
       refreshToken := refreshTok,
       localStorage := (localStorage w)
         (''access_token'' \<mapsto> to_string accessToken, ''refresh_token'' \<mapsto> to_string refreshTok)\<rparr>"

definition clearTokens :: "world \<Rightarrow> world" where
  "clearTokens w =
     w\<lparr>token := JNull,
       refreshToken := JNull,
       localStorage := (localStorage w)(''access_token'' := None, ''refresh_token'' := None)\<rparr>"

definition isAuthenticated :: "world \<Rightarrow> bool" where
  "isAuthenticated w = truthy (token w)"

text \<open>The store holds nothing: both slots are \<^verbatim>\<open>null\<close> and both storage keys are gone.\<close>

definition cleared :: "world \<Rightarrow> bool" where
  "cleared w =
     (token w = JNull \<and> refreshToken w = JNull
      \<and> localStorage w ''access_token'' = None \<and> localStorage w ''refresh_token'' = None)"

subsection \<open>Refreshing the access token\<close>

text \<open>
  \<^verbatim>\<open>refreshAccessToken\<close> sends the refresh token as a bearer credential. Its
  \<^verbatim>\<open>try\<close> block spans the \<^verbatim>\<open>fetch\<close>, the \<^verbatim>\<open>response.ok\<close> test, the body and
  \<^verbatim>\<open>setTokens\<close>; the \<^verbatim>\<open>catch\<close> block logs, clears the tokens, sends the page to the
  login form and throws the error on.
\<close>

definition refresh_request :: "world \<Rightarrow> request" where
  "refresh_request w =
     \<lparr>req_url = baseURL w @ ''/api/auth/refresh'',
      req_method = Some ''POST'',
      req_body = None,
      req_headers = [''Content-Type'' \<mapsto> ''application/json'',
                     ''Authorization'' \<mapsto> ''Bearer '' @ to_string (refreshToken w)],
      req_mode = Some ''cors'',
      req_credentials = Some ''include''\<rparr>"

definition refresh_catch :: "error \<Rightarrow> world \<Rightarrow> (error + jsval) \<times> world" where
  "refresh_catch e w =
     (Inl e, (clearTokens (console_error ''Token refresh error:'' w))
                \<lparr>href := ''/app/auth/login.html''\<rparr>)"

text \<open>The part of \<^verbatim>\<open>refreshAccessToken\<close> that runs once its \<^verbatim>\<open>fetch\<close> has settled.\<close>

definition refresh_settle :: "fetch_result \<Rightarrow> world \<Rightarrow> (error + jsval) \<times> world" where
  "refresh_settle r w =
     (case r of
        Rejected m \<Rightarrow> refresh_catch (NetworkError m) w
      | Resolved resp \<Rightarrow>
          if ok resp then
            (case jsonBody resp of
               None \<Rightarrow> refresh_catch SyntaxError w
             | Some data \<Rightarrow>
                 (case get_prop data ''access_token'' of
                    Inl e \<Rightarrow> refresh_catch e w
                  | Inr access \<Rightarrow> (Inr access, setTokens access (refreshToken w) w)))
          else refresh_catch (Error ''Token refresh failed'') w)"

definition refreshAccessToken :: "network \<Rightarrow> world \<Rightarrow> (error + jsval) \<times> world" where
  "refreshAccessToken net w =
     (case fetch net (refresh_request w) w of (r, w1) \<Rightarrow> refresh_settle r w1)"

subsection \<open>The request pipeline\<close>

definition handleResponse :: "response \<Rightarrow> error + reply" where
  "handleResponse resp =
     (if (case contentType resp of None \<Rightarrow> False
          | Some ct \<Rightarrow> ct \<noteq> [] \<and> includes_str ct ''application/json'')
      then
        (case jsonBody resp of
           None \<Rightarrow> Inl SyntaxError
         | Some data \<Rightarrow>
             if \<not> ok resp then
               (case get_prop data ''message'' of
                  Inl e \<Rightarrow> Inl e
                | Inr m \<Rightarrow>
                    if truthy m then Inl (Error (to_string m))
                    else
                      (case get_prop data ''error'' of
                         Inl e \<Rightarrow> Inl e
                       | Inr er \<Rightarrow>
                           if truthy er then Inl (Error (to_string er))
                           else Inl (Error ''Request failed'')))
             else Inr (Data data))
      else if \<not> ok resp
        then Inl (Error (''HTTP '' @ show_nat (status resp) @ '': '' @ statusText resp))
        else Inr (Raw resp))"

text \<open>
  The \<^verbatim>\<open>headers\<close> object of \<^verbatim>\<open>makeRequest\<close>: the default content type, then the
  caller's headers spread over it, then the bearer token if one is stored.
\<close>

definition build_headers :: "options \<Rightarrow> world \<Rightarrow> (string \<rightharpoonup> string)" where
  "build_headers opts w =
     (let headers = [''Content-Type'' \<mapsto> ''application/json''] ++ opt_headers opts
      in if truthy (token w)
         then headers(''Authorization'' \<mapsto> ''Bearer '' @ to_string (token w))
         else headers)"

text \<open>
  HTTP header names are case-insensitive: two property names name the same header when
  they agree after ASCII lower-casing. The class never compares names; this only says
  which of the caller's headers are \<^verbatim>\<open>Authorization\<close> headers.
\<close>

definition lower_char :: "char \<Rightarrow> char" where
  "lower_char c =
     (case map_of (zip ''ABCDEFGHIJKLMNOPQRSTUVWXYZ'' ''abcdefghijklmnopqrstuvwxyz'') c of
        None \<Rightarrow> c
      | Some d \<Rightarrow> d)"

definition same_header_name :: "string \<Rightarrow> string \<Rightarrow> bool" where
  "same_header_name a b = (map lower_char a = map lower_char b)"

text \<open>The first dispatch: \<^verbatim>\<open>{...options, headers, mode: 'cors', credentials: 'include'}\<close>.\<close>

definition first_request :: "string \<Rightarrow> options \<Rightarrow> world \<Rightarrow> request" where
  "first_request endpoint opts w =
     \<lparr>req_url = baseURL w @ endpoint,
      req_method = opt_method opts,
      req_body = opt_body opts,
      req_headers = build_headers opts w,
      req_mode = Some ''cors'',
      req_credentials = Some ''include''\<rparr>"

text \<open>
  The retry: the same URL and \<^verbatim>\<open>{...options, headers}\<close>, after the \<^verbatim>\<open>Authorization\<close>
  member of the same \<^verbatim>\<open>headers\<close> object has been overwritten with the token now stored.
\<close>

definition retry_request :: "string \<Rightarrow> (string \<rightharpoonup> string) \<Rightarrow> options \<Rightarrow> world \<Rightarrow> request" where
  "retry_request url headers opts w =
     \<lparr>req_url = url,
      req_method = opt_method opts,
      req_body = opt_body opts,
      req_headers = headers(''Authorization'' \<mapsto> ''Bearer '' @ to_string (token w)),
      req_mode = opt_mode opts,
      req_credentials = opt_credentials opts\<rparr>"

text \<open>The \<^verbatim>\<open>catch\<close> block of \<^verbatim>\<open>makeRequest\<close>: log and throw on.\<close>

definition request_catch :: "error \<Rightarrow> world \<Rightarrow> (error + reply) \<times> world" where
  "request_catch e w = (Inl e, console_error ''API request failed:'' w)"

text \<open>
  \<^verbatim>\<open>makeRequest\<close>. The two \<^verbatim>\<open>fetch\<close> calls and \<^verbatim>\<open>refreshAccessToken\<close> are awaited
  inside the \<^verbatim>\<open>try\<close> block, so their failures pass through the \<^verbatim>\<open>catch\<close> block. The
  promise of \<^verbatim>\<open>handleResponse\<close> is returned without \<^verbatim>\<open>await\<close>, so its failure reaches
  the caller without passing through the \<^verbatim>\<open>catch\<close> block.
\<close>

definition makeRequest ::
  "network \<Rightarrow> string \<Rightarrow> options \<Rightarrow> world \<Rightarrow> (error + reply) \<times> world" where
  "makeRequest net endpoint opts w =
     (let url = baseURL w @ endpoint;
          headers = build_headers opts w
      in case fetch net (first_request endpoint opts w) w of
           (Rejected m, w1) \<Rightarrow> request_catch (NetworkError m) w1
         | (Resolved resp, w1) \<Rightarrow>
             if status resp = 401 \<and> truthy (refreshToken w1) then
               (case refreshAccessToken net w1 of
                  (Inl e, w2) \<Rightarrow> request_catch e w2
                | (Inr access, w2) \<Rightarrow>
                    (case fetch net (retry_request url headers opts w2) w2 of
                       (Rejected m, w3) \<Rightarrow> request_catch (NetworkError m) w3
                     | (Resolved retryResponse, w3) \<Rightarrow> (handleResponse retryResponse, w3)))
             else (handleResponse resp, w1))"

subsection \<open>Decoding the access token\<close>

text \<open>
  \<^verbatim>\<open>JSON.parse(atob(this.token.split('.')[1]))\<close>. A token that is not a string has no
  \<^verbatim>\<open>split\<close> (TypeError); a token without a dot has no second segment, and \<^verbatim>\<open>atob\<close> is
  handed \<^verbatim>\<open>undefined\<close>, which it reads as the string \<^verbatim>\<open>"undefined"\<close>.
\<close>

definition decode_payload :: "platform \<Rightarrow> jsval \<Rightarrow> error + json" where
  "decode_payload P tok =
     (case tok of
        JStr s \<Rightarrow>
          (let parts = split CHR ''.'' s;
               segment = (if 1 < length parts then JStr (parts ! 1) else JUndefined)
           in case atob P (to_string segment) of
                None \<Rightarrow> Inl InvalidCharacterError
              | Some text \<Rightarrow>
                  (case json_parse P text of
                     None \<Rightarrow> Inl SyntaxError
                   | Some payload \<Rightarrow> Inr payload))
      | _ \<Rightarrow> Inl TypeError)"

definition getCurrentUserId :: "platform \<Rightarrow> world \<Rightarrow> jsval \<times> world" where
  "getCurrentUserId P w =
     (if \<not> truthy (token w) then (JNull, w)
      else
        (case decode_payload P (token w) of
           Inl e \<Rightarrow> (JNull, console_error ''Token parsing error:'' w)
         | Inr payload \<Rightarrow>
             (case get_prop payload ''sub'' of
                Inl e \<Rightarrow> (JNull, console_error ''Token parsing error:'' w)
              | Inr sub \<Rightarrow> (sub, w))))"

subsection \<open>The proactive refresh timer\<close>

text \<open>
  \<^verbatim>\<open>setupTokenRefresh\<close>, with \<open>now\<close> the value of \<^verbatim>\<open>Date.now()\<close> in milliseconds. A
  timer is recorded by the delay handed to \<^verbatim>\<open>setTimeout\<close>; its callback is always
  \<^verbatim>\<open>refreshAccessToken\<close>. The class never calls \<^verbatim>\<open>clearTimeout\<close>.
\<close>

definition setupTokenRefresh :: "platform \<Rightarrow> int \<Rightarrow> world \<Rightarrow> world" where
  "setupTokenRefresh P now w =
     (if truthy (token w) then
        (case decode_payload P (token w) of
           Inl e \<Rightarrow> console_error ''Token parsing error:'' w
         | Inr payload \<Rightarrow>
             (case get_prop payload ''exp'' of
                Inl e \<Rightarrow> console_error ''Token parsing error:'' w
              | Inr exp_claim \<Rightarrow>
                  (let expirationTime = js_mul (to_number P exp_claim) (Fin 1000);
                       refreshTime = js_sub expirationTime (Fin (5 * 60 * 1000))
                   in if js_gt refreshTime (Fin now)
                      then w\<lparr>timers := timers w @ [js_sub refreshTime (Fin now)]\<rparr>
                      else w)))
      else w)"

text \<open>
  The constructor: the tokens are read from the storage, then \<^verbatim>\<open>setupTokenRefresh\<close> runs.
  This is the only call of \<^verbatim>\<open>setupTokenRefresh\<close> in the class.
\<close>

definition EvergrowAPI :: "platform \<Rightarrow> int \<Rightarrow> string \<Rightarrow> string \<Rightarrow> (string \<rightharpoonup> string) \<Rightarrow> world" where
  "EvergrowAPI P now hostname page store =
     setupTokenRefresh P now
       \<lparr>baseURL = getAPIBaseURL hostname,
        token = getItem store ''access_token'',
        refreshToken = getItem store ''refresh_token'',
        localStorage = store,
        href = page,
        fetches = [],
        timers = [],
        console = []\<rparr>"

subsection \<open>Requests in flight together\<close>

text \<open>
  JavaScript runs one piece of code at a time, and an \<^verbatim>\<open>async\<close> function gives way at
  each \<^verbatim>\<open>await\<close>. A call of \<^verbatim>\<open>makeRequest\<close> is therefore pending on its first
  \<^verbatim>\<open>fetch\<close>, on the \<^verbatim>\<open>fetch\<close> of the refresh, or on the \<^verbatim>\<open>fetch\<close> of the retry,
  and between two waits it runs alone on the shared world. \<open>spawn\<close> runs the call up
  to its first \<^verbatim>\<open>await\<close>; \<open>resume\<close> hands a pending call the settled \<^verbatim>\<open>fetch\<close>
  and runs it up to the next one. A pending call keeps its locals: the URL, the
  \<^verbatim>\<open>headers\<close> object and the options. The body of a response arrives with the
  response: \<^verbatim>\<open>await response.json()\<close> is not a step of its own.
\<close>

datatype pending =
    AwaitFirst string "string \<rightharpoonup> string" options
  | AwaitRefresh string "string \<rightharpoonup> string" options
  | AwaitRetry
  | Done "error + reply"

definition spawn :: "string \<Rightarrow> options \<Rightarrow> world \<Rightarrow> pending \<times> world" where
  "spawn endpoint opts w =
     (AwaitFirst (baseURL w @ endpoint) (build_headers opts w) opts,
      send (first_request endpoint opts w) w)"

fun resume :: "fetch_result \<Rightarrow> pending \<Rightarrow> world \<Rightarrow> pending \<times> world" where
  "resume r (AwaitFirst url headers opts) w =
     (case r of
        Rejected m \<Rightarrow> (Done (Inl (NetworkError m)), console_error ''API request failed:'' w)
      | Resolved resp \<Rightarrow>
          if status resp = 401 \<and> truthy (refreshToken w)
          then (AwaitRefresh url headers opts, send (refresh_request w) w)
          else (Done (handleResponse resp), w))"
| "resume r (AwaitRefresh url headers opts) w =
     (case refresh_settle r w of
        (Inl e, w2) \<Rightarrow> (Done (Inl e), console_error ''API request failed:'' w2)
      | (Inr access, w2) \<Rightarrow> (AwaitRetry, send (retry_request url headers opts w2) w2))"
| "resume r AwaitRetry w =
     (case r of
        Rejected m \<Rightarrow> (Done (Inl (NetworkError m)), console_error ''API request failed:'' w)
      | Resolved retryResponse \<Rightarrow> (Done (handleResponse retryResponse), w))"
| "resume r (Done res) w = (Done res, w)"

text \<open>
  A schedule: each pending call of the list, in turn, is handed the answer paired with
  it. Nothing else runs in between.
\<close>

fun resume_all :: "(pending \<times> fetch_result) list \<Rightarrow> world \<Rightarrow> pending list \<times> world" where
  "resume_all [] w = ([], w)"
| "resume_all ((t, r) # rest) w =
     (case resume r t w of
        (t', w1) \<Rightarrow> (case resume_all rest w1 of (ts, w2) \<Rightarrow> (t' # ts, w2)))"

text \<open>The calls of the log that went to the refresh endpoint.\<close>

definition refresh_calls :: "world \<Rightarrow> nat" where
  "refresh_calls w =
     length (filter (\<lambda>q. req_url q = baseURL w @ ''/api/auth/refresh'') (fetches w))"

text \<open>
  Run alone, a call is handed the network's answer to the \<^verbatim>\<open>fetch\<close> it issued last.
\<close>

definition answer :: "network \<Rightarrow> world \<Rightarrow> fetch_result" where
  "answer net w = net (length (fetches w) - 1) (last (fetches w))"

definition run_alone :: "network \<Rightarrow> pending \<times> world \<Rightarrow> pending \<times> world" where
  "run_alone net tw = resume (answer net (snd tw)) (fst tw) (snd tw)"

fun awaiting_first :: "pending \<Rightarrow> bool" where
  "awaiting_first (AwaitFirst url headers opts) = True"
| "awaiting_first t = False"

fun awaiting_refresh :: "pending \<Rightarrow> bool" where
  "awaiting_refresh (AwaitRefresh url headers opts) = True"
| "awaiting_refresh t = False"

text \<open>The answer is the authorization-failure signal: a response with status 401.\<close>

fun unauthenticated :: "fetch_result \<Rightarrow> bool" where
  "unauthenticated (Resolved resp) = (status resp = 401)"
| "unauthenticated (Rejected m) = False"

subsection \<open>A session used in the examples\<close>

text \<open>
  A token whose second segment is the base64 form of
  \<^verbatim>\<open>{"exp":1000,"sub":"u42"}\<close>, and a platform that decodes this one segment and
  rejects every other input (as \<^verbatim>\<open>atob\<close> rejects \<^verbatim>\<open>"undefined"\<close>).
\<close>

definition jwt :: string where
  "jwt = ''h.eyJleHAiOjEwMDAsInN1YiI6InU0MiJ9.s''"

definition sample_platform :: platform where
  \<open>sample_platform =
     \<lparr>atob = (\<lambda>s. if s = ''eyJleHAiOjEwMDAsInN1YiI6InU0MiJ9''
                    then Some ''{"exp":1000,"sub":"u42"}'' else None),
      json_parse = (\<lambda>t. if t = ''{"exp":1000,"sub":"u42"}''
                    then Some (JsonObj [(''exp'', JNum 1000), (''sub'', JStr ''u42'')])
                    else None),
      string_to_number = (\<lambda>s. NaN)\<rparr>\<close>

definition session :: world where
  "session =
     \<lparr>baseURL = ''https://api.evergrow360.com'',
      token = JStr jwt,
      refreshToken = JStr ''R1'',
      localStorage = [''access_token'' \<mapsto> jwt, ''refresh_token'' \<mapsto> ''R1''],
      href = ''/app/dashboard.html'',
      fetches = [],
      timers = [],
      console = []\<rparr>"

definition session_without_refresh :: world where
  "session_without_refresh =
     session\<lparr>refreshToken := JNull, localStorage := [''access_token'' \<mapsto> jwt]\<rparr>"

definition plain :: options where
  "plain = \<lparr>opt_method = None, opt_body = None, opt_headers = Map.empty,
             opt_mode = None, opt_credentials = None\<rparr>"

text \<open>A caller that supplies its own credential under a lower-case header name.\<close>

definition basic_caller :: options where
  "basic_caller = plain\<lparr>opt_headers := [''authorization'' \<mapsto> ''Basic abc'']\<rparr>"

definition unauthorized :: response where
  "unauthorized =
     \<lparr>status = 401, statusText = ''UNAUTHORIZED'', contentType = Some ''application/json'',
      jsonBody = Some (JsonObj [(''msg'', JStr ''Token has expired'')])\<rparr>"

definition refreshed :: response where
  "refreshed =
     \<lparr>status = 200, statusText = ''OK'', contentType = Some ''application/json'',
      jsonBody =
        Some (JsonObj [(''access_token'', JStr ''A2''), (''refresh_token'', JStr ''R2'')])\<rparr>"

text \<open>A server that answers every call with 401.\<close>

definition net_revoked :: network where
  "net_revoked n q = Resolved unauthorized"

text \<open>A server that accepts the refresh (the second call) and answers 401 otherwise.\<close>

definition net_expired :: network where
  "net_expired n q = (if n = 1 then Resolved refreshed else Resolved unauthorized)"

definition malformed_session :: world where
  "malformed_session = session\<lparr>token := JStr ''garbage''\<rparr>"

text \<open>
  Two calls of \<^verbatim>\<open>makeRequest\<close> started one after the other, both waiting for their
  first answer; then both answered with 401.
\<close>

definition two_in_flight :: "pending list \<times> world" where
  "two_in_flight =
     (case spawn ''/api/user/profile'' plain session of
        (t1, w1) \<Rightarrow>
          (case spawn ''/api/coaching/plans'' plain w1 of
             (t2, w2) \<Rightarrow> ([t1, t2], w2)))"

definition both_unauthorized :: "pending list \<times> world" where
  "both_unauthorized =
     resume_all (zip (fst two_in_flight) [Resolved unauthorized, Resolved unauthorized])
       (snd two_in_flight)"

section \<open>Field lemmas\<close>

lemma send_fields [simp]:
  "baseURL (send q w) = baseURL w" "token (send q w) = token w"
  "refreshToken (send q w) = refreshToken w" "localStorage (send q w) = localStorage w"
  "href (send q w) = href w" "timers (send q w) = timers w" "console (send q w) = console w"
  "fetches (send q w) = fetches w @ [q]"
  by (simp_all add: send_def)

lemma console_error_fields [simp]:
  "baseURL (console_error m w) = baseURL w" "token (console_error m w) = token w"
  "refreshToken (console_error m w) = refreshToken w"
  "localStorage (console_error m w) = localStorage w"
  "href (console_error m w) = href w" "timers (console_error m w) = timers w"
  "fetches (console_error m w) = fetches w" "console (console_error m w) = console w @ [m]"
  by (simp_all add: console_error_def)

lemma clearTokens_fields [simp]:
  "baseURL (clearTokens w) = baseURL w" "token (clearTokens w) = JNull"
  "refreshToken (clearTokens w) = JNull"
  "localStorage (clearTokens w) = (localStorage w)(''access_token'' := None, ''refresh_token'' := None)"
  "href (clearTokens w) = href w" "timers (clearTokens w) = timers w"
  "fetches (clearTokens w) = fetches w" "console (clearTokens w) = console w"
  by (simp_all add: clearTokens_def)

lemma setTokens_fields [simp]:
  "baseURL (setTokens a r w) = baseURL w" "token (setTokens a r w) = a"
  "refreshToken (setTokens a r w) = r"
  "localStorage (setTokens a r w) =
     (localStorage w)(''access_token'' \<mapsto> to_string a, ''refresh_token'' \<mapsto> to_string r)"
  "href (setTokens a r w) = href w" "timers (setTokens a r w) = timers w"
  "fetches (setTokens a r w) = fetches w" "console (setTokens a r w) = console w"
  by (simp_all add: setTokens_def)

lemma refresh_request_send [simp]: "refresh_request (send q w) = refresh_request w"
  by (simp add: refresh_request_def)

lemma cleared_clearTokens: "cleared (clearTokens w)"
  by (simp add: cleared_def)

lemma refresh_catch_result:
  "fst (refresh_catch e w) = Inl e" "cleared (snd (refresh_catch e w))"
  "href (snd (refresh_catch e w)) = ''/app/auth/login.html''"
  "fetches (snd (refresh_catch e w)) = fetches w"
  "timers (snd (refresh_catch e w)) = timers w"
  by (simp_all add: refresh_catch_def cleared_def)

lemma refresh_settle_Inl:
  assumes "fst (refresh_settle r w) = Inl e"
  shows "cleared (snd (refresh_settle r w))"
    and "href (snd (refresh_settle r w)) = ''/app/auth/login.html''"
  using assms
  by (auto simp: refresh_settle_def refresh_catch_result
      split: fetch_result.splits option.splits sum.splits if_splits)

lemma refresh_settle_Inr:
  assumes "fst (refresh_settle r w) = Inr a"
  shows "\<exists>resp data. r = Resolved resp \<and> ok resp \<and> jsonBody resp = Some data
           \<and> get_prop data ''access_token'' = Inr a
           \<and> snd (refresh_settle r w) = setTokens a (refreshToken w) w"
  using assms
  by (auto simp: refresh_settle_def refresh_catch_def
      split: fetch_result.splits option.splits sum.splits if_splits)

lemma refreshAccessToken_unfold:
  "refreshAccessToken net w =
     refresh_settle (net (length (fetches w)) (refresh_request w)) (send (refresh_request w) w)"
  by (simp add: refreshAccessToken_def fetch_def)

lemma ok_401: "status r = 401 \<Longrightarrow> \<not> ok r"
  by (simp add: ok_def)

lemma handleResponse_not_ok: "\<not> ok r \<Longrightarrow> isl (handleResponse r)"
  by (auto simp: handleResponse_def split: option.splits sum.splits)

lemma refresh_settle_fetches [simp]: "fetches (snd (refresh_settle r w)) = fetches w"
  by (simp add: refresh_settle_def refresh_catch_def
      split: fetch_result.splits option.splits sum.splits)

lemma refresh_settle_timers [simp]: "timers (snd (refresh_settle r w)) = timers w"
  by (simp add: refresh_settle_def refresh_catch_def
      split: fetch_result.splits option.splits sum.splits)

lemma refresh_settle_baseURL [simp]: "baseURL (snd (refresh_settle r w)) = baseURL w"
  by (simp add: refresh_settle_def refresh_catch_def
      split: fetch_result.splits option.splits sum.splits)

lemma refresh_settle_success:
  assumes "ok resp" "jsonBody resp = Some data" "get_prop data ''access_token'' = Inr access"
  shows "refresh_settle (Resolved resp) w = (Inr access, setTokens access (refreshToken w) w)"
  using assms by (simp add: refresh_settle_def)

lemma retry_request_token:
  "token w = token w' \<Longrightarrow> retry_request url hs opts w = retry_request url hs opts w'"
  by (simp add: retry_request_def)

lemma makeRequest_unfold:
  "makeRequest net endpoint opts w =
     (case net (length (fetches w)) (first_request endpoint opts w) of
        Rejected m \<Rightarrow> request_catch (NetworkError m) (send (first_request endpoint opts w) w)
      | Resolved resp \<Rightarrow>
          if status resp = 401 \<and> truthy (refreshToken w) then
            (case refreshAccessToken net (send (first_request endpoint opts w) w) of
               (Inl e, w2) \<Rightarrow> request_catch e w2
             | (Inr access, w2) \<Rightarrow>
                 (case net (length (fetches w2))
                         (retry_request (baseURL w @ endpoint) (build_headers opts w) opts w2) of
                    Rejected m \<Rightarrow>
                      request_catch (NetworkError m)
                        (send (retry_request (baseURL w @ endpoint) (build_headers opts w) opts w2) w2)
                  | Resolved retryResponse \<Rightarrow>
                      (handleResponse retryResponse,
                       send (retry_request (baseURL w @ endpoint) (build_headers opts w) opts w2) w2)))
          else (handleResponse resp, send (first_request endpoint opts w) w))"
  by (simp add: makeRequest_def fetch_def Let_def split: fetch_result.splits prod.splits sum.splits)

lemma request_catch_fetches [simp]: "fetches (snd (request_catch e w)) = fetches w"
  by (simp add: request_catch_def)

lemma refreshAccessToken_fetches [simp]:
  "fetches (snd (refreshAccessToken net w)) = fetches w @ [refresh_request w]"
  by (simp add: refreshAccessToken_unfold)

lemma makeRequest_first_fetch:
  "\<exists>rest. fetches (snd (makeRequest net endpoint opts w))
            = fetches w @ first_request endpoint opts w # rest"
proof -
  let ?w1 = "send (first_request endpoint opts w) w"
  obtain r w2 where rw: "refreshAccessToken net ?w1 = (r, w2)"
    by (cases "refreshAccessToken net ?w1")
  have "fetches (snd (refreshAccessToken net ?w1)) = fetches ?w1 @ [refresh_request ?w1]"
    by (rule refreshAccessToken_fetches)
  with rw have f2: "fetches w2 = fetches w @ [first_request endpoint opts w, refresh_request w]"
    by simp
  show ?thesis
    using rw f2
    by (auto simp: makeRequest_unfold split: fetch_result.splits sum.splits)
qed

lemma build_headers_Authorization:
  "build_headers opts w ''Authorization'' =
     (if truthy (token w) then Some (''Bearer '' @ to_string (token w))
      else opt_headers opts ''Authorization'')"
  by (simp add: build_headers_def Let_def map_add_def split: option.splits)

lemma build_headers_other:
  "k \<noteq> ''Authorization'' \<Longrightarrow>
     build_headers opts w k =
       (case opt_headers opts k of
          None \<Rightarrow> (if k = ''Content-Type'' then Some ''application/json'' else None)
        | Some v \<Rightarrow> Some v)"
  by (simp add: build_headers_def Let_def map_add_def split: option.splits)

lemma first_dispatch:
  "fetches (snd (makeRequest net endpoint opts w)) ! length (fetches w)
     = first_request endpoint opts w"
proof -
  obtain rest where "fetches (snd (makeRequest net endpoint opts w))
            = fetches w @ first_request endpoint opts w # rest"
    using makeRequest_first_fetch by blast
  then show ?thesis by simp
qed

lemma constructor_timers:
  "timers (EvergrowAPI P now hostname page store) =
     (if truthy (getItem store ''access_token'') then
        (case decode_payload P (getItem store ''access_token'') of
           Inl e \<Rightarrow> []
         | Inr payload \<Rightarrow>
             (case get_prop payload ''exp'' of
                Inl e \<Rightarrow> []
              | Inr e \<Rightarrow>
                  (case to_number P e of
                     NaN \<Rightarrow> []
                   | Fin ex \<Rightarrow>
                       if now < ex * 1000 - 5 * 60 * 1000
                       then [Fin (ex * 1000 - 5 * 60 * 1000 - now)] else [])))
      else [])"
  by (simp add: EvergrowAPI_def setupTokenRefresh_def Let_def console_error_def
      split: sum.splits jsnum.splits)

lemma handleResponse_unauthorized:
  "handleResponse unauthorized = Inl (Error ''Request failed'')"
  by (simp add: handleResponse_def unauthorized_def ok_def)

lemma decode_jwt:
  "decode_payload sample_platform (JStr jwt)
     = Inr (JsonObj [(''exp'', JNum 1000), (''sub'', JStr ''u42'')])"
  by (simp add: decode_payload_def jwt_def sample_platform_def)

lemma decode_garbage:
  "decode_payload sample_platform (JStr ''garbage'') = Inl InvalidCharacterError"
  by (simp add: decode_payload_def sample_platform_def)

lemma refreshAccessToken_timers [simp]: "timers (snd (refreshAccessToken net w)) = timers w"
  by (simp add: refreshAccessToken_unfold)

lemma request_catch_timers [simp]: "timers (snd (request_catch e w)) = timers w"
  by (simp add: request_catch_def)

lemma makeRequest_timers: "timers (snd (makeRequest net endpoint opts w)) = timers w"
proof -
  let ?w1 = "send (first_request endpoint opts w) w"
  obtain r w2 where rw: "refreshAccessToken net ?w1 = (r, w2)"
    by (cases "refreshAccessToken net ?w1")
  have "timers (snd (refreshAccessToken net ?w1)) = timers ?w1"
    by (rule refreshAccessToken_timers)
  with rw have "timers w2 = timers w" by simp
  with rw show ?thesis
    by (auto simp: makeRequest_unfold split: fetch_result.splits sum.splits)
qed

lemma resume_unauthenticated:
  assumes "truthy (refreshToken w)" "awaiting_first t" "unauthenticated r"
  shows "\<exists>url hs opts. resume r t w = (AwaitRefresh url hs opts, send (refresh_request w) w)"
  using assms by (cases t; cases r) simp_all

lemma resume_all_unauthenticated:
  assumes "truthy (refreshToken w)"
      and "list_all (\<lambda>(t, r). awaiting_first t \<and> unauthenticated r) trs"
  shows "fetches (snd (resume_all trs w)) = fetches w @ replicate (length trs) (refresh_request w)
       \<and> list_all awaiting_refresh (fst (resume_all trs w))
       \<and> length (fst (resume_all trs w)) = length trs
       \<and> baseURL (snd (resume_all trs w)) = baseURL w
       \<and> token (snd (resume_all trs w)) = token w
       \<and> refreshToken (snd (resume_all trs w)) = refreshToken w"
  using assms
proof (induction trs arbitrary: w)
  case Nil
  then show ?case by simp
next
  case (Cons tr trs)
  obtain t r where tr: "tr = (t, r)" by (cases tr)
  from Cons.prems tr have "awaiting_first t" "unauthenticated r" by simp_all
  with Cons.prems(1) obtain url hs opts where
    st: "resume r t w = (AwaitRefresh url hs opts, send (refresh_request w) w)"
    using resume_unauthenticated by blast
  let ?w1 = "send (refresh_request w) w"
  have "truthy (refreshToken ?w1)" using Cons.prems(1) by simp
  moreover have "list_all (\<lambda>(t, r). awaiting_first t \<and> unauthenticated r) trs"
    using Cons.prems(2) by simp
  ultimately have ih:
    "fetches (snd (resume_all trs ?w1)) = fetches ?w1 @ replicate (length trs) (refresh_request ?w1)
       \<and> list_all awaiting_refresh (fst (resume_all trs ?w1))
       \<and> length (fst (resume_all trs ?w1)) = length trs
       \<and> baseURL (snd (resume_all trs ?w1)) = baseURL ?w1
       \<and> token (snd (resume_all trs ?w1)) = token ?w1
       \<and> refreshToken (snd (resume_all trs ?w1)) = refreshToken ?w1"
    by (rule Cons.IH)
  show ?case
    using ih by (auto simp: tr st split: prod.splits)
qed

lemma refresh_calls_append:
  assumes "fetches w' = fetches w @ replicate n (refresh_request w)" "baseURL w' = baseURL w"
  shows "refresh_calls w' = refresh_calls w + n"
  using assms by (simp add: refresh_calls_def refresh_request_def)

text \<open>
  The two readings of \<^verbatim>\<open>makeRequest\<close> agree: a call run alone is the pending call
  resumed with the network's answers, at most three times.
\<close>

lemma run_alone_makeRequest:
  "run_alone net (run_alone net (run_alone net (spawn endpoint opts w)))
     = (Done (fst (makeRequest net endpoint opts w)), snd (makeRequest net endpoint opts w))"
proof -
  let ?w1 = "send (first_request endpoint opts w) w"
  have a1: "answer net ?w1 = net (length (fetches w)) (first_request endpoint opts w)"
    by (simp add: answer_def)
  have a2: "answer net (send (refresh_request w) ?w1)
              = net (Suc (length (fetches w))) (refresh_request w)"
    by (simp add: answer_def)
  have a3: "\<And>q w2. fetches w2 = fetches w @ [first_request endpoint opts w, refresh_request w]
              \<Longrightarrow> answer net (send q w2) = net (length (fetches w2)) q"
    by (simp add: answer_def)
  obtain r w2 where rw: "refresh_settle (net (Suc (length (fetches w))) (refresh_request w))
                           (send (refresh_request w) ?w1) = (r, w2)"
    by (cases "refresh_settle (net (Suc (length (fetches w))) (refresh_request w))
                           (send (refresh_request w) ?w1)")
  have "fetches (snd (refresh_settle (net (Suc (length (fetches w))) (refresh_request w))
                           (send (refresh_request w) ?w1)))
          = fetches (send (refresh_request w) ?w1)"
    by (rule refresh_settle_fetches)
  with rw have f2: "fetches w2 = fetches w @ [first_request endpoint opts w, refresh_request w]"
    by simp
  show ?thesis
    using rw a3 [OF f2]
    by (auto simp: run_alone_def spawn_def a1 a2 makeRequest_unfold refreshAccessToken_unfold
        request_catch_def split: fetch_result.splits sum.splits)
qed


section \<open>The credential store: clearing\<close>

text \<open>
  C7. \<^verbatim>\<open>clearTokens\<close> is idempotent: clearing twice gives the state that clearing once
  gives. After it \<^verbatim>\<open>isAuthenticated()\<close> is false, the access token read back is
  \<^verbatim>\<open>null\<close>, and neither token is left in memory or in the storage.
\<close>

theorem clearTokens_idempotent:
  "clearTokens (clearTokens w) = clearTokens w
   \<and> isAuthenticated (clearTokens w) = False
   \<and> token (clearTokens w) = JNull
   \<and> refreshToken (clearTokens w) = JNull
   \<and> localStorage (clearTokens w) ''access_token'' = None
   \<and> localStorage (clearTokens w) ''refresh_token'' = None"
  by (simp add: clearTokens_def isAuthenticated_def)

section \<open>The request pipeline\<close>

text \<open>
  C10, as claimed: with an access token stored, any \<^verbatim>\<open>Authorization\<close> header the
  caller supplied would be overridden in the dispatched request. It is not when the
  caller writes the name in another letter case: \<^verbatim>\<open>authorization\<close> names the same
  header, and the caller's \<^verbatim>\<open>Basic abc\<close> is still among the headers handed to
  \<^verbatim>\<open>fetch\<close>, beside the bearer token under \<^verbatim>\<open>Authorization\<close>.
\<close>

theorem authorization_header_counterexample:
  "isAuthenticated session
   \<and> same_header_name ''authorization'' ''Authorization''
   \<and> opt_headers basic_caller ''authorization'' = Some ''Basic abc''
   \<and> req_headers (fetches (snd (makeRequest net_revoked ''/api/user/profile'' basic_caller
          session)) ! 0) ''authorization'' = Some ''Basic abc''
   \<and> req_headers (fetches (snd (makeRequest net_revoked ''/api/user/profile'' basic_caller
          session)) ! 0) ''Authorization'' = Some (''Bearer '' @ jwt)"
proof -
  have l: "length (fetches session) = 0" by (simp add: session_def)
  have f: "fetches (snd (makeRequest net_revoked ''/api/user/profile'' basic_caller session)) ! 0
             = first_request ''/api/user/profile'' basic_caller session"
    using first_dispatch [of net_revoked "''/api/user/profile''" basic_caller session]
    unfolding l .
  have a: "isAuthenticated session"
    by (simp add: isAuthenticated_def session_def jwt_def)
  have n: "same_header_name ''authorization'' ''Authorization''"
    by code_simp
  have c: "opt_headers basic_caller ''authorization'' = Some ''Basic abc''"
    by (simp add: basic_caller_def)
  have d: "req_headers (first_request ''/api/user/profile'' basic_caller session)
             ''authorization'' = Some ''Basic abc''"
    by (simp add: first_request_def build_headers_other c)
  have t: "token session = JStr jwt" by (simp add: session_def)
  have e: "req_headers (first_request ''/api/user/profile'' basic_caller session)
             ''Authorization'' = Some (''Bearer '' @ jwt)"
    using a by (simp add: first_request_def build_headers_Authorization isAuthenticated_def t)
  show ?thesis by (simp only: f a n c d e simp_thms)
qed

text \<open>
  C10, amended. Whenever an access token is stored (\<^verbatim>\<open>isAuthenticated()\<close>, the test
  \<^verbatim>\<open>if (this.token)\<close>), the headers of the request that \<^verbatim>\<open>makeRequest\<close> dispatches
  first hold, under the exact name \<^verbatim>\<open>Authorization\<close>, \<^verbatim>\<open>Bearer\<close>, a space and that
  token, whatever the caller supplied under that exact name. Every header the caller
  supplied under another name, \<^verbatim>\<open>authorization\<close> in another letter case included, is
  passed on unchanged. Whenever no token is stored, the caller's \<^verbatim>\<open>Authorization\<close>
  header (or its absence) is passed on unchanged. Nothing else is added but the default
  content type.
\<close>

theorem authorization_header:
  "(isAuthenticated w \<longrightarrow>
      req_headers (fetches (snd (makeRequest net endpoint opts w)) ! length (fetches w))
        ''Authorization'' = Some (''Bearer '' @ to_string (token w)))
   \<and> (\<not> isAuthenticated w \<longrightarrow>
      req_headers (fetches (snd (makeRequest net endpoint opts w)) ! length (fetches w))
        ''Authorization'' = opt_headers opts ''Authorization'')
   \<and> (\<forall>k v. k \<noteq> ''Authorization'' \<and> opt_headers opts k = Some v \<longrightarrow>
      req_headers (fetches (snd (makeRequest net endpoint opts w)) ! length (fetches w)) k
        = Some v)
   \<and> (\<forall>k. k \<noteq> ''Authorization'' \<and> k \<noteq> ''Content-Type'' \<and> opt_headers opts k = None \<longrightarrow>
      req_headers (fetches (snd (makeRequest net endpoint opts w)) ! length (fetches w)) k
        = None)
   \<and> (opt_headers opts ''Content-Type'' = None \<longrightarrow>
      req_headers (fetches (snd (makeRequest net endpoint opts w)) ! length (fetches w))
        ''Content-Type'' = Some ''application/json'')"
  unfolding first_dispatch
  by (simp add: first_request_def build_headers_Authorization build_headers_other
      isAuthenticated_def)

theorem authorization_header_witness:
  "isAuthenticated session
   \<and> req_headers (fetches (snd (makeRequest net_revoked ''/api/user/profile''
          (plain\<lparr>opt_headers := [''Authorization'' \<mapsto> ''Basic abc'']\<rparr>) session)) ! 0)
        ''Authorization'' = Some (''Bearer '' @ jwt)
   \<and> \<not> isAuthenticated (clearTokens session)
   \<and> req_headers (fetches (snd (makeRequest net_revoked ''/api/user/profile''
          (plain\<lparr>opt_headers := [''Authorization'' \<mapsto> ''Basic abc'']\<rparr>) (clearTokens session))) ! 0)
        ''Authorization'' = Some ''Basic abc''
   \<and> ''authorization'' \<noteq> ''Authorization''
   \<and> opt_headers basic_caller ''authorization'' = Some ''Basic abc''
   \<and> req_headers (fetches (snd (makeRequest net_revoked ''/api/user/profile'' basic_caller
          session)) ! 0) ''authorization'' = Some ''Basic abc''"
proof -
  let ?caller = "plain\<lparr>opt_headers := [''Authorization'' \<mapsto> ''Basic abc'']\<rparr>"
  have a: "isAuthenticated session"
    by (simp add: isAuthenticated_def session_def jwt_def)
  have b: "\<not> isAuthenticated (clearTokens session)"
    by (simp add: isAuthenticated_def)
  have l: "length (fetches session) = 0" "length (fetches (clearTokens session)) = 0"
    by (simp_all add: session_def)
  have t: "to_string (token session) = jwt" by (simp add: session_def)
  have c: "''authorization'' \<noteq> ''Authorization''" by simp
  have d: "opt_headers basic_caller ''authorization'' = Some ''Basic abc''"
    by (simp add: basic_caller_def)
  have o: "opt_headers ?caller ''Authorization'' = Some ''Basic abc''"
    by simp
  note s1 = authorization_header [of session net_revoked "''/api/user/profile''" ?caller]
  note s2 = authorization_header [of "clearTokens session" net_revoked "''/api/user/profile''"
      ?caller]
  note s3 = authorization_header [of session net_revoked "''/api/user/profile''" basic_caller]
  have e1: "req_headers (fetches (snd (makeRequest net_revoked ''/api/user/profile''
          ?caller session)) ! 0) ''Authorization'' = Some (''Bearer '' @ jwt)"
    using s1 [THEN conjunct1] a unfolding l t by (rule mp)
  have e2: "req_headers (fetches (snd (makeRequest net_revoked ''/api/user/profile''
          ?caller (clearTokens session))) ! 0) ''Authorization'' = Some ''Basic abc''"
    using s2 [THEN conjunct2, THEN conjunct1] b unfolding l o by (rule mp)
  have "''authorization'' \<noteq> ''Authorization''
          \<and> opt_headers basic_caller ''authorization'' = Some ''Basic abc''
        \<longrightarrow> req_headers (fetches (snd (makeRequest net_revoked ''/api/user/profile''
              basic_caller session)) ! 0) ''authorization'' = Some ''Basic abc''"
    using s3 [THEN conjunct2, THEN conjunct2, THEN conjunct1, THEN spec, THEN spec]
    unfolding l .
  with c d have e3: "req_headers (fetches (snd (makeRequest net_revoked ''/api/user/profile''
              basic_caller session)) ! 0) ''authorization'' = Some ''Basic abc''"
    by (simp only: simp_thms)
  show ?thesis by (simp only: a b c d e1 e2 e3 simp_thms)
qed

text \<open>
  C1. Retry once. The first dispatch is answered with 401 while a refresh token is
  stored, and the refresh succeeds. Then \<^verbatim>\<open>makeRequest\<close> issues exactly three calls,
  whatever the answer to the last: the request, one refresh, and one retry, which is
  the request again (same URL, method, body and headers; of the \<^verbatim>\<open>fetch\<close> options,
  \<^verbatim>\<open>mode\<close> and \<^verbatim>\<open>credentials\<close> are no longer forced) under the new access token.
  The caller gets what \<^verbatim>\<open>handleResponse\<close> makes of the retried response: when that is
  a 401 again, its failure, with no second refresh and no further retry.
\<close>

theorem retry_once:
  assumes first: "net (length (fetches w)) (first_request endpoint opts w) = Resolved resp"
      and unauth: "status resp = 401"
      and stored: "truthy (refreshToken w)"
      and refresh: "net (length (fetches w) + 1) (refresh_request w) = Resolved fresh"
      and fresh: "ok fresh" "jsonBody fresh = Some data"
                 "get_prop data ''access_token'' = Inr access"
  shows "fetches (snd (makeRequest net endpoint opts w)) =
           fetches w @ [first_request endpoint opts w, refresh_request w,
                        retry_request (baseURL w @ endpoint) (build_headers opts w) opts
                          (setTokens access (refreshToken w) w)]
       \<and> (\<forall>again.
             net (length (fetches w) + 2)
               (retry_request (baseURL w @ endpoint) (build_headers opts w) opts
                  (setTokens access (refreshToken w) w)) = Resolved again
             \<longrightarrow> fst (makeRequest net endpoint opts w) = handleResponse again
                 \<and> (status again = 401 \<longrightarrow> isl (fst (makeRequest net endpoint opts w))))
       \<and> (\<forall>m.
             net (length (fetches w) + 2)
               (retry_request (baseURL w @ endpoint) (build_headers opts w) opts
                  (setTokens access (refreshToken w) w)) = Rejected m
             \<longrightarrow> fst (makeRequest net endpoint opts w) = Inl (NetworkError m))
       \<and> token (snd (makeRequest net endpoint opts w)) = access
       \<and> refreshToken (snd (makeRequest net endpoint opts w)) = refreshToken w
       \<and> req_headers (retry_request (baseURL w @ endpoint) (build_headers opts w) opts
              (setTokens access (refreshToken w) w)) ''Authorization''
           = Some (''Bearer '' @ to_string access)
       \<and> req_url (retry_request (baseURL w @ endpoint) (build_headers opts w) opts
              (setTokens access (refreshToken w) w))
           = req_url (first_request endpoint opts w)
       \<and> req_method (retry_request (baseURL w @ endpoint) (build_headers opts w) opts
              (setTokens access (refreshToken w) w))
           = req_method (first_request endpoint opts w)
       \<and> req_body (retry_request (baseURL w @ endpoint) (build_headers opts w) opts
              (setTokens access (refreshToken w) w))
           = req_body (first_request endpoint opts w)
       \<and> (\<forall>k. k \<noteq> ''Authorization'' \<longrightarrow>
             req_headers (retry_request (baseURL w @ endpoint) (build_headers opts w) opts
                (setTokens access (refreshToken w) w)) k
             = req_headers (first_request endpoint opts w) k)"
proof -
  let ?w1 = "send (first_request endpoint opts w) w"
  let ?w2 = "setTokens access (refreshToken w) (send (refresh_request w) ?w1)"
  let ?retry = "retry_request (baseURL w @ endpoint) (build_headers opts w) opts
                  (setTokens access (refreshToken w) w)"
  let ?R = "makeRequest net endpoint opts w"
  have r: "refreshAccessToken net ?w1 = (Inr access, ?w2)"
    using refresh fresh by (simp add: refreshAccessToken_unfold refresh_settle_success)
  have q: "retry_request (baseURL w @ endpoint) (build_headers opts w) opts ?w2 = ?retry"
    by (rule retry_request_token) simp
  have m: "?R = (case net (length (fetches w) + 2) ?retry of
                   Rejected m \<Rightarrow> request_catch (NetworkError m) (send ?retry ?w2)
                 | Resolved again \<Rightarrow> (handleResponse again, send ?retry ?w2))"
    using first unauth stored r q
    by (simp add: makeRequest_unfold split: fetch_result.splits)
  have w: "fetches (snd ?R) = fetches w @ [first_request endpoint opts w, refresh_request w, ?retry]"
          "token (snd ?R) = access" "refreshToken (snd ?R) = refreshToken w"
    by (simp_all add: m request_catch_def split: fetch_result.splits)
  have a: "\<forall>again. net (length (fetches w) + 2) ?retry = Resolved again
             \<longrightarrow> fst ?R = handleResponse again \<and> (status again = 401 \<longrightarrow> isl (fst ?R))"
    using ok_401 handleResponse_not_ok by (simp add: m)
  have b: "\<forall>m. net (length (fetches w) + 2) ?retry = Rejected m
             \<longrightarrow> fst ?R = Inl (NetworkError m)"
    by (simp add: m request_catch_def)
  have h: "req_headers ?retry ''Authorization'' = Some (''Bearer '' @ to_string access)"
          "req_url ?retry = req_url (first_request endpoint opts w)"
          "req_method ?retry = req_method (first_request endpoint opts w)"
          "req_body ?retry = req_body (first_request endpoint opts w)"
          "\<forall>k. k \<noteq> ''Authorization'' \<longrightarrow>
             req_headers ?retry k = req_headers (first_request endpoint opts w) k"
    by (simp_all add: retry_request_def first_request_def)
  from w a b h show ?thesis by blast
qed

theorem retry_once_witness:
  "net_expired (length (fetches session)) (first_request ''/api/user/profile'' plain session)
     = Resolved unauthorized
   \<and> status unauthorized = 401
   \<and> truthy (refreshToken session)
   \<and> net_expired (length (fetches session) + 1) (refresh_request session) = Resolved refreshed
   \<and> ok refreshed
   \<and> fst (makeRequest net_expired ''/api/user/profile'' plain session)
       = Inl (Error ''Request failed'')
   \<and> map req_url (fetches (snd (makeRequest net_expired ''/api/user/profile'' plain session)))
       = [''https://api.evergrow360.com/api/user/profile'',
          ''https://api.evergrow360.com/api/auth/refresh'',
          ''https://api.evergrow360.com/api/user/profile'']
   \<and> token (snd (makeRequest net_expired ''/api/user/profile'' plain session)) = JStr ''A2''"
proof -
  have h1: "net_expired (length (fetches session))
              (first_request ''/api/user/profile'' plain session) = Resolved unauthorized"
    by (simp add: net_expired_def session_def)
  have h2: "status unauthorized = 401" by (simp add: unauthorized_def)
  have h3: "truthy (refreshToken session)" by (simp add: session_def)
  have h4: "net_expired (length (fetches session) + 1) (refresh_request session)
              = Resolved refreshed"
    by (simp add: net_expired_def session_def)
  have h5: "ok refreshed" by (simp add: ok_def refreshed_def)
  have h6: "jsonBody refreshed
              = Some (JsonObj [(''access_token'', JStr ''A2''), (''refresh_token'', JStr ''R2'')])"
    by (simp add: refreshed_def)
  have h7: "get_prop (JsonObj [(''access_token'', JStr ''A2''), (''refresh_token'', JStr ''R2'')])
              ''access_token'' = Inr (JStr ''A2'')"
    by simp
  have h8: "net_expired (length (fetches session) + 2)
              (retry_request (baseURL session @ ''/api/user/profile'')
                 (build_headers plain session) plain
                 (setTokens (JStr ''A2'') (refreshToken session) session)) = Resolved unauthorized"
    by (simp add: net_expired_def session_def)
  from retry_once
    [where net = net_expired and w = session and resp = unauthorized and fresh = refreshed,
     OF h1 h2 h3 h4 h5 h6 h7]
    h1 h2 h3 h4 h5 h8
  show ?thesis
    by (simp add: handleResponse_unauthorized first_request_def refresh_request_def
        retry_request_def session_def)
qed

text \<open>
  C3, as claimed: after a 401 with no refresh token stored the store would be cleared.
  It is not: the access token of the example session is still stored afterwards, and
  the caller gets the failure built from the response.
\<close>

theorem no_refresh_token_counterexample:
  "status unauthorized = 401
   \<and> \<not> truthy (refreshToken session_without_refresh)
   \<and> net_revoked (length (fetches session_without_refresh))
        (first_request ''/api/user/profile'' plain session_without_refresh) = Resolved unauthorized
   \<and> \<not> cleared (snd (makeRequest net_revoked ''/api/user/profile'' plain session_without_refresh))
   \<and> token (snd (makeRequest net_revoked ''/api/user/profile'' plain session_without_refresh))
       = JStr jwt
   \<and> fst (makeRequest net_revoked ''/api/user/profile'' plain session_without_refresh)
       = Inl (Error ''Request failed'')"
  by (simp add: makeRequest_unfold net_revoked_def session_without_refresh_def session_def
      unauthorized_def cleared_def handleResponse_def ok_def)

text \<open>
  C3, amended. When the dispatch is answered with 401 and no refresh token is stored,
  \<^verbatim>\<open>makeRequest\<close> leaves both tokens, the storage and the page location as they were,
  issues no further call, and hands the caller the failure that \<^verbatim>\<open>handleResponse\<close>
  builds from that response.
\<close>

theorem no_refresh_token_passes_failure:
  assumes "net (length (fetches w)) (first_request endpoint opts w) = Resolved resp"
      and "status resp = 401"
      and "\<not> truthy (refreshToken w)"
  shows "makeRequest net endpoint opts w
           = (handleResponse resp, send (first_request endpoint opts w) w)
       \<and> isl (handleResponse resp)
       \<and> token (snd (makeRequest net endpoint opts w)) = token w
       \<and> refreshToken (snd (makeRequest net endpoint opts w)) = refreshToken w
       \<and> localStorage (snd (makeRequest net endpoint opts w)) = localStorage w
       \<and> href (snd (makeRequest net endpoint opts w)) = href w
       \<and> fetches (snd (makeRequest net endpoint opts w))
           = fetches w @ [first_request endpoint opts w]"
proof -
  have m: "makeRequest net endpoint opts w
             = (handleResponse resp, send (first_request endpoint opts w) w)"
    using assms by (simp add: makeRequest_unfold)
  have "\<not> ok resp" using assms(2) by (rule ok_401)
  then have "isl (handleResponse resp)" by (rule handleResponse_not_ok)
  with m show ?thesis by simp
qed

theorem no_refresh_token_passes_failure_witness:
  "status unauthorized = 401
   \<and> \<not> truthy (refreshToken session_without_refresh)
   \<and> makeRequest net_revoked ''/api/user/profile'' plain session_without_refresh
       = (Inl (Error ''Request failed''),
          send (first_request ''/api/user/profile'' plain session_without_refresh)
            session_without_refresh)"
proof -
  have h1: "net_revoked (length (fetches session_without_refresh))
        (first_request ''/api/user/profile'' plain session_without_refresh) = Resolved unauthorized"
    by (simp add: net_revoked_def)
  have h2: "status unauthorized = 401" by (simp add: unauthorized_def)
  have h3: "\<not> truthy (refreshToken session_without_refresh)"
    by (simp add: session_without_refresh_def)
  from no_refresh_token_passes_failure
    [where net = net_revoked and w = session_without_refresh and resp = unauthorized, OF h1 h2 h3]
    h2 h3
  show ?thesis by (simp add: handleResponse_unauthorized)
qed

section \<open>Refreshing\<close>

text \<open>
  C6. Every failing refresh clears the store before the error reaches the caller:
  whenever \<^verbatim>\<open>refreshAccessToken\<close> fails, both tokens are gone from memory and from the
  storage and the page is sent to the login form. A transport error is passed on as it
  is; a response that is not OK, the 401 among them, gives the error
  \<^verbatim>\<open>Token refresh failed\<close>, which is not a network error.
\<close>

theorem refresh_failure_clears_store:
  "(isl (fst (refreshAccessToken net w)) \<longrightarrow>
        cleared (snd (refreshAccessToken net w))
      \<and> href (snd (refreshAccessToken net w)) = ''/app/auth/login.html'')
   \<and> (\<forall>m. net (length (fetches w)) (refresh_request w) = Rejected m \<longrightarrow>
        fst (refreshAccessToken net w) = Inl (NetworkError m))
   \<and> (\<forall>resp. net (length (fetches w)) (refresh_request w) = Resolved resp \<and> \<not> ok resp \<longrightarrow>
        fst (refreshAccessToken net w) = Inl (Error ''Token refresh failed''))
   \<and> (\<forall>resp. net (length (fetches w)) (refresh_request w) = Resolved resp \<and> status resp = 401 \<longrightarrow>
        fst (refreshAccessToken net w) = Inl (Error ''Token refresh failed'')
        \<and> (\<forall>m. fst (refreshAccessToken net w) \<noteq> Inl (NetworkError m)))"
proof -
  let ?r = "net (length (fetches w)) (refresh_request w)"
  let ?w = "send (refresh_request w) w"
  have a: "isl (fst (refresh_settle ?r ?w)) \<longrightarrow>
        cleared (snd (refresh_settle ?r ?w))
      \<and> href (snd (refresh_settle ?r ?w)) = ''/app/auth/login.html''"
    using refresh_settle_Inl [of ?r ?w] by (auto simp: isl_def)
  have b: "\<forall>m. ?r = Rejected m \<longrightarrow> fst (refresh_settle ?r ?w) = Inl (NetworkError m)"
    by (simp add: refresh_settle_def refresh_catch_def)
  have c: "\<forall>resp. ?r = Resolved resp \<and> \<not> ok resp \<longrightarrow>
        fst (refresh_settle ?r ?w) = Inl (Error ''Token refresh failed'')"
    by (simp add: refresh_settle_def refresh_catch_def)
  have d: "\<forall>resp. ?r = Resolved resp \<and> status resp = 401 \<longrightarrow>
        fst (refresh_settle ?r ?w) = Inl (Error ''Token refresh failed'')
        \<and> (\<forall>m. fst (refresh_settle ?r ?w) \<noteq> Inl (NetworkError m))"
    using c ok_401 by auto
  show ?thesis
    unfolding refreshAccessToken_unfold using a b c d by blast
qed

theorem refresh_failure_clears_store_witness:
  "net_revoked (length (fetches session)) (refresh_request session) = Resolved unauthorized
   \<and> status unauthorized = 401
   \<and> isl (fst (refreshAccessToken net_revoked session))
   \<and> fst (refreshAccessToken net_revoked session) = Inl (Error ''Token refresh failed'')
   \<and> cleared (snd (refreshAccessToken net_revoked session))"
proof -
  have h: "net_revoked (length (fetches session)) (refresh_request session) = Resolved unauthorized"
    by (simp add: net_revoked_def)
  have s: "status unauthorized = 401"
    by (simp add: unauthorized_def)
  from refresh_failure_clears_store [of net_revoked session] h s
  show ?thesis by (auto simp: isl_def)
qed

text \<open>
  C9. A successful refresh changes the access token only: the refresh token in memory
  is the one held before, the storage holds its string form, and a
  \<^verbatim>\<open>refresh_token\<close> member of the refresh response is never installed.
\<close>

theorem refresh_keeps_refresh_token:
  assumes "fst (refreshAccessToken net w) = Inr access"
  shows "refreshToken (snd (refreshAccessToken net w)) = refreshToken w
       \<and> localStorage (snd (refreshAccessToken net w)) ''refresh_token''
           = Some (to_string (refreshToken w))
       \<and> token (snd (refreshAccessToken net w)) = access
       \<and> localStorage (snd (refreshAccessToken net w)) ''access_token'' = Some (to_string access)
       \<and> (\<forall>k. k \<noteq> ''access_token'' \<and> k \<noteq> ''refresh_token'' \<longrightarrow>
             localStorage (snd (refreshAccessToken net w)) k = localStorage w k)"
proof -
  from assms refresh_settle_Inr [of "net (length (fetches w)) (refresh_request w)"
      "send (refresh_request w) w" access]
  have "snd (refreshAccessToken net w)
          = setTokens access (refreshToken w) (send (refresh_request w) w)"
    by (auto simp: refreshAccessToken_unfold)
  then show ?thesis by simp
qed

theorem refresh_keeps_refresh_token_witness:
  "fst (refreshAccessToken net_expired
          (send (first_request ''/api/user/profile'' plain session) session))
     = Inr (JStr ''A2'')
   \<and> refreshToken (snd (refreshAccessToken net_expired
          (send (first_request ''/api/user/profile'' plain session) session)))
     = JStr ''R1''
   \<and> localStorage (snd (refreshAccessToken net_expired
          (send (first_request ''/api/user/profile'' plain session) session))) ''refresh_token''
     = Some ''R1''"
proof -
  let ?w = "send (first_request ''/api/user/profile'' plain session) session"
  have h: "fst (refreshAccessToken net_expired ?w) = Inr (JStr ''A2'')"
    by (simp add: refreshAccessToken_unfold net_expired_def refresh_settle_def refreshed_def
        ok_def session_def)
  have "refreshToken ?w = JStr ''R1''" by (simp add: session_def)
  with refresh_keeps_refresh_token [OF h] h show ?thesis by simp
qed

section \<open>Requests refreshing together\<close>

text \<open>
  C2, as claimed: several requests in flight that all meet a 401 would share one
  refresh call and its outcome. They do not: of two requests in flight, each answered
  with 401, each issues a refresh call of its own; and when the first refresh call is
  accepted and the second refused, the first request goes on to its retry while the
  second fails.
\<close>

theorem single_flight_counterexample:
  "list_all awaiting_first (fst two_in_flight)
   \<and> truthy (refreshToken (snd two_in_flight))
   \<and> refresh_calls (snd two_in_flight) = 0
   \<and> refresh_calls (snd both_unauthorized) = 2
   \<and> fst (resume_all (zip (fst both_unauthorized) [Resolved refreshed, Resolved unauthorized])
             (snd both_unauthorized))
       = [AwaitRetry, Done (Inl (Error ''Token refresh failed''))]"
  by (simp add: both_unauthorized_def two_in_flight_def spawn_def session_def unauthorized_def
      refreshed_def refresh_calls_def refresh_request_def first_request_def refresh_settle_def
      refresh_catch_def ok_def)

text \<open>
  C2, amended. Requests in flight that are each answered with 401 while a refresh token
  is stored issue one refresh call each, all carrying the same refresh token: \<open>N\<close>
  requests issue \<open>N\<close> refresh calls, and each request is left waiting for the answer
  to its own.
\<close>

theorem each_request_refreshes:
  assumes "truthy (refreshToken w)"
      and "list_all (\<lambda>(t, r). awaiting_first t \<and> unauthenticated r) trs"
  shows "refresh_calls (snd (resume_all trs w)) = refresh_calls w + length trs
       \<and> fetches (snd (resume_all trs w))
           = fetches w @ replicate (length trs) (refresh_request w)
       \<and> list_all awaiting_refresh (fst (resume_all trs w))
       \<and> length (fst (resume_all trs w)) = length trs"
  using resume_all_unauthenticated [OF assms] refresh_calls_append by blast

theorem each_request_refreshes_witness:
  "truthy (refreshToken (snd two_in_flight))
   \<and> list_all (\<lambda>(t, r). awaiting_first t \<and> unauthenticated r)
         (zip (fst two_in_flight) [Resolved unauthorized, Resolved unauthorized])
   \<and> refresh_calls
        (snd (resume_all (zip (fst two_in_flight) [Resolved unauthorized, Resolved unauthorized])
                (snd two_in_flight))) = refresh_calls (snd two_in_flight) + 2"
proof -
  have a: "truthy (refreshToken (snd two_in_flight))"
    by (simp add: two_in_flight_def spawn_def session_def)
  have b: "list_all (\<lambda>(t, r). awaiting_first t \<and> unauthenticated r)
         (zip (fst two_in_flight) [Resolved unauthorized, Resolved unauthorized])"
    by (simp add: two_in_flight_def spawn_def unauthorized_def)
  from each_request_refreshes [OF a b] a b show ?thesis
    by (simp add: two_in_flight_def spawn_def)
qed

section \<open>The proactive refresh timer\<close>

text \<open>
  C4, as claimed: a token whose trigger time has passed would be refreshed at once.
  It is not: for a token expiring at \<open>now + margin - 1 s\<close>, \<^verbatim>\<open>setupTokenRefresh\<close>
  arms no timer and issues no call.
\<close>

theorem proactive_refresh_counterexample:
  "decode_payload sample_platform (token session)
     = Inr (JsonObj [(''exp'', JNum 1000), (''sub'', JStr ''u42'')])
   \<and> (1000::int) * 1000 = 701000 + 5 * 60 * 1000 - 1000
   \<and> timers (setupTokenRefresh sample_platform 701000 session) = []
   \<and> fetches (setupTokenRefresh sample_platform 701000 session) = []"
  by (simp add: setupTokenRefresh_def session_def decode_jwt)

text \<open>
  C4, amended. When the expiry minus five minutes is at or before the current time,
  \<^verbatim>\<open>setupTokenRefresh\<close> does nothing: no timer, no refresh. It never issues a call
  itself, and a timer it arms has a positive delay.
\<close>

theorem setupTokenRefresh_skips_when_due:
  "(\<forall>payload e ex.
       decode_payload P (token w) = Inr payload \<and> get_prop payload ''exp'' = Inr e
       \<and> to_number P e = Fin ex \<and> ex * 1000 - 5 * 60 * 1000 \<le> now
       \<longrightarrow> setupTokenRefresh P now w = w)
   \<and> fetches (setupTokenRefresh P now w) = fetches w
   \<and> (timers (setupTokenRefresh P now w) = timers w
      \<or> (\<exists>d. 0 < d \<and> timers (setupTokenRefresh P now w) = timers w @ [Fin d]))"
proof -
  have a: "\<forall>payload e ex.
       decode_payload P (token w) = Inr payload \<and> get_prop payload ''exp'' = Inr e
       \<and> to_number P e = Fin ex \<and> ex * 1000 - 5 * 60 * 1000 \<le> now
       \<longrightarrow> setupTokenRefresh P now w = w"
    by (simp add: setupTokenRefresh_def)
  have b: "fetches (setupTokenRefresh P now w) = fetches w"
    by (simp add: setupTokenRefresh_def Let_def split: sum.splits)
  have gt: "\<And>x. js_gt x (Fin now) \<Longrightarrow> \<exists>d. 0 < d \<and> js_sub x (Fin now) = Fin d"
    by (case_tac x) auto
  have c: "timers (setupTokenRefresh P now w) = timers w
      \<or> (\<exists>d. 0 < d \<and> timers (setupTokenRefresh P now w) = timers w @ [Fin d])"
    using gt by (auto simp: setupTokenRefresh_def Let_def split: sum.splits)
  from a b c show ?thesis by blast
qed

theorem setupTokenRefresh_skips_when_due_witness:
  "decode_payload sample_platform (token session)
     = Inr (JsonObj [(''exp'', JNum 1000), (''sub'', JStr ''u42'')])
   \<and> get_prop (JsonObj [(''exp'', JNum 1000), (''sub'', JStr ''u42'')]) ''exp'' = Inr (JNum 1000)
   \<and> to_number sample_platform (JNum 1000) = Fin 1000
   \<and> (1000::int) * 1000 - 5 * 60 * 1000 \<le> 701000
   \<and> setupTokenRefresh sample_platform 701000 session = session"
proof -
  have d: "decode_payload sample_platform (token session)
             = Inr (JsonObj [(''exp'', JNum 1000), (''sub'', JStr ''u42'')])"
    by (simp add: session_def decode_jwt)
  have e: "get_prop (JsonObj [(''exp'', JNum 1000), (''sub'', JStr ''u42'')]) ''exp''
             = Inr (JNum 1000)"
    by simp
  have n: "to_number sample_platform (JNum 1000) = Fin 1000" by simp
  have l: "(1000::int) * 1000 - 5 * 60 * 1000 \<le> 701000" by simp
  from setupTokenRefresh_skips_when_due [of sample_platform session 701000] d e n l
  show ?thesis by blast
qed

text \<open>
  C5, as claimed: \<^verbatim>\<open>setTokens\<close> would arm a timer for the new token and cancel the
  one armed before. It does neither: with a timer outstanding and a new token whose
  trigger time is in the future, the timers after \<^verbatim>\<open>setTokens\<close> are the timers before.
\<close>

theorem setTokens_counterexample:
  "js_gt (js_sub (js_mul (Fin 1000) (Fin 1000)) (Fin (5 * 60 * 1000))) (Fin 0)
   \<and> decode_payload sample_platform (JStr jwt)
       = Inr (JsonObj [(''exp'', JNum 1000), (''sub'', JStr ''u42'')])
   \<and> timers (setTokens (JStr jwt) (JStr ''R1'') (session\<lparr>timers := [Fin 5000]\<rparr>)) = [Fin 5000]"
  by (simp add: decode_jwt)

text \<open>
  C5, amended. \<^verbatim>\<open>setTokens\<close> neither arms nor cancels a timer, and neither do
  \<^verbatim>\<open>clearTokens\<close>, \<^verbatim>\<open>refreshAccessToken\<close> and \<^verbatim>\<open>makeRequest\<close>: no timer is ever
  cancelled. The timer is armed by the constructor alone, from the access token found
  in the storage. When that token decodes and its trigger time, the expiry minus five
  minutes, is in the future, exactly one timer is armed, with a positive delay, due at
  the trigger time (the delay is exact for times in the range of valid time values).
  Otherwise none is armed: when no token is stored, when it does not decode, when its
  \<^verbatim>\<open>exp\<close> cannot be read or is not a number, or when the trigger time is at or before
  the current time.
\<close>

theorem timer_armed_by_constructor_only:
  "timers (setTokens access refreshTok w) = timers w
   \<and> timers (clearTokens w) = timers w
   \<and> timers (snd (refreshAccessToken net w)) = timers w
   \<and> timers (snd (makeRequest net endpoint opts w)) = timers w
   \<and> length (timers (EvergrowAPI P now hostname page store)) \<le> 1
   \<and> (\<forall>payload e ex.
         truthy (getItem store ''access_token'')
         \<and> decode_payload P (getItem store ''access_token'') = Inr payload
         \<and> get_prop payload ''exp'' = Inr e \<and> to_number P e = Fin ex
         \<and> now < ex * 1000 - 5 * 60 * 1000
         \<longrightarrow> (\<exists>d. 0 < d \<and> timers (EvergrowAPI P now hostname page store) = [Fin d])
             \<and> (0 \<le> now \<and> ex * 1000 \<le> 8640000000000000
                  \<longrightarrow> timers (EvergrowAPI P now hostname page store)
                        = [Fin (ex * 1000 - 5 * 60 * 1000 - now)]))
   \<and> (\<not> truthy (getItem store ''access_token'')
         \<longrightarrow> timers (EvergrowAPI P now hostname page store) = [])
   \<and> (\<forall>e. decode_payload P (getItem store ''access_token'') = Inl e
         \<longrightarrow> timers (EvergrowAPI P now hostname page store) = [])
   \<and> (\<forall>payload e. decode_payload P (getItem store ''access_token'') = Inr payload
         \<and> get_prop payload ''exp'' = Inl e
         \<longrightarrow> timers (EvergrowAPI P now hostname page store) = [])
   \<and> (\<forall>payload e. decode_payload P (getItem store ''access_token'') = Inr payload
         \<and> get_prop payload ''exp'' = Inr e \<and> to_number P e = NaN
         \<longrightarrow> timers (EvergrowAPI P now hostname page store) = [])
   \<and> (\<forall>payload e ex. decode_payload P (getItem store ''access_token'') = Inr payload
         \<and> get_prop payload ''exp'' = Inr e \<and> to_number P e = Fin ex
         \<and> ex * 1000 - 5 * 60 * 1000 \<le> now
         \<longrightarrow> timers (EvergrowAPI P now hostname page store) = [])"
proof -
  let ?T = "timers (EvergrowAPI P now hostname page store)"
  let ?tok = "getItem store ''access_token''"
  have a: "length ?T \<le> 1"
    by (simp add: constructor_timers split: sum.splits jsnum.splits)
  have b: "\<forall>payload e ex.
         truthy ?tok \<and> decode_payload P ?tok = Inr payload
         \<and> get_prop payload ''exp'' = Inr e \<and> to_number P e = Fin ex
         \<and> now < ex * 1000 - 5 * 60 * 1000
         \<longrightarrow> (\<exists>d. 0 < d \<and> ?T = [Fin d])
             \<and> (0 \<le> now \<and> ex * 1000 \<le> 8640000000000000
                  \<longrightarrow> ?T = [Fin (ex * 1000 - 5 * 60 * 1000 - now)])"
    by (auto simp: constructor_timers)
  have c: "\<not> truthy ?tok \<longrightarrow> ?T = []"
    by (auto simp: constructor_timers)
  have d: "\<forall>e. decode_payload P ?tok = Inl e \<longrightarrow> ?T = []"
    by (auto simp: constructor_timers)
  have e: "\<forall>payload e. decode_payload P ?tok = Inr payload \<and> get_prop payload ''exp'' = Inl e
         \<longrightarrow> ?T = []"
    by (auto simp: constructor_timers)
  have f: "\<forall>payload e. decode_payload P ?tok = Inr payload
         \<and> get_prop payload ''exp'' = Inr e \<and> to_number P e = NaN \<longrightarrow> ?T = []"
    by (auto simp: constructor_timers)
  have g: "\<forall>payload e ex. decode_payload P ?tok = Inr payload
         \<and> get_prop payload ''exp'' = Inr e \<and> to_number P e = Fin ex
         \<and> ex * 1000 - 5 * 60 * 1000 \<le> now \<longrightarrow> ?T = []"
    by (auto simp: constructor_timers)
  have h: "timers (setTokens access refreshTok w) = timers w"
    "timers (clearTokens w) = timers w"
    "timers (snd (refreshAccessToken net w)) = timers w"
    "timers (snd (makeRequest net endpoint opts w)) = timers w"
    by (simp_all add: makeRequest_timers)
  show ?thesis
    by (intro conjI) (rule h a b c d e f g)+
qed

theorem timer_armed_by_constructor_only_witness:
  "truthy (getItem (localStorage session) ''access_token'')
   \<and> decode_payload sample_platform (getItem (localStorage session) ''access_token'')
       = Inr (JsonObj [(''exp'', JNum 1000), (''sub'', JStr ''u42'')])
   \<and> (0::int) < 1000 * 1000 - 5 * 60 * 1000
   \<and> (1000::int) * 1000 \<le> 8640000000000000
   \<and> timers (EvergrowAPI sample_platform 0 ''localhost'' ''/app/dashboard.html''
               (localStorage session)) = [Fin 700000]
   \<and> (1000::int) * 1000 - 5 * 60 * 1000 \<le> 701000
   \<and> timers (EvergrowAPI sample_platform 701000 ''localhost'' ''/app/dashboard.html''
               (localStorage session)) = []
   \<and> \<not> truthy (getItem (localStorage (clearTokens session)) ''access_token'')
   \<and> timers (EvergrowAPI sample_platform 0 ''localhost'' ''/app/dashboard.html''
               (localStorage (clearTokens session))) = []"
proof -
  let ?obj = "JsonObj [(''exp'', JNum 1000), (''sub'', JStr ''u42'')]"
  have g: "getItem (localStorage session) ''access_token'' = JStr jwt"
    by (simp add: getItem_def session_def)
  have t: "truthy (getItem (localStorage session) ''access_token'')"
    by (simp add: g jwt_def)
  have d: "decode_payload sample_platform (getItem (localStorage session) ''access_token'')
       = Inr ?obj"
    by (simp add: g decode_jwt)
  have e: "get_prop ?obj ''exp'' = Inr (JNum 1000)"
    by simp
  have n: "to_number sample_platform (JNum 1000) = Fin 1000" by simp
  have l: "(0::int) < 1000 * 1000 - 5 * 60 * 1000" by simp
  have r: "(0::int) \<le> 0 \<and> (1000::int) * 1000 \<le> 8640000000000000" by simp
  have u: "(1000::int) * 1000 - 5 * 60 * 1000 \<le> 701000" by simp
  have x: "\<not> truthy (getItem (localStorage (clearTokens session)) ''access_token'')"
    by (simp add: getItem_def)
  note armed = timer_armed_by_constructor_only
         [of _ _ _ _ _ _ sample_platform 0 "''localhost''" "''/app/dashboard.html''"
            "localStorage session"]
  have w1: "timers (EvergrowAPI sample_platform 0 ''localhost'' ''/app/dashboard.html''
               (localStorage session)) = [Fin (1000 * 1000 - 5 * 60 * 1000 - 0)]"
    using armed t d e n l r by blast
  note due = timer_armed_by_constructor_only
         [of _ _ _ _ _ _ sample_platform 701000 "''localhost''" "''/app/dashboard.html''"
            "localStorage session"]
  have w2: "timers (EvergrowAPI sample_platform 701000 ''localhost'' ''/app/dashboard.html''
               (localStorage session)) = []"
    using due d e n u by blast
  note none = timer_armed_by_constructor_only
         [of _ _ _ _ _ _ sample_platform 0 "''localhost''" "''/app/dashboard.html''"
            "localStorage (clearTokens session)"]
  have w3: "timers (EvergrowAPI sample_platform 0 ''localhost'' ''/app/dashboard.html''
               (localStorage (clearTokens session))) = []"
    using none x by blast
  from w1 have w1': "timers (EvergrowAPI sample_platform 0 ''localhost'' ''/app/dashboard.html''
               (localStorage session)) = [Fin 700000]"
    by simp
  from r have r': "(1000::int) * 1000 \<le> 8640000000000000" by simp
  show ?thesis by (intro conjI) (rule t d l r' w1' u w2 x w3)+
qed

section \<open>The subject identifier\<close>

text \<open>
  C8. \<^verbatim>\<open>getCurrentUserId\<close> reads the \<^verbatim>\<open>sub\<close> member of the decoded access token
  without any call to the network and without touching the store. With no token stored,
  or with a token whose decoding throws (not a string, no second segment, not base64,
  not JSON, or the JSON \<^verbatim>\<open>null\<close>), it returns \<^verbatim>\<open>null\<close>: every throw of the
  \<^verbatim>\<open>try\<close> block ends in the \<^verbatim>\<open>catch\<close> block, so the model's result is a value and
  never an error.
\<close>

theorem getCurrentUserId_never_raises:
  "fetches (snd (getCurrentUserId P w)) = fetches w
   \<and> token (snd (getCurrentUserId P w)) = token w
   \<and> refreshToken (snd (getCurrentUserId P w)) = refreshToken w
   \<and> localStorage (snd (getCurrentUserId P w)) = localStorage w
   \<and> (\<not> isAuthenticated w \<longrightarrow> fst (getCurrentUserId P w) = JNull)
   \<and> (\<forall>e. decode_payload P (token w) = Inl e \<longrightarrow> fst (getCurrentUserId P w) = JNull)
   \<and> (decode_payload P (token w) = Inr JsonNull \<longrightarrow> fst (getCurrentUserId P w) = JNull)
   \<and> (\<forall>members. isAuthenticated w \<and> decode_payload P (token w) = Inr (JsonObj members) \<longrightarrow>
         fst (getCurrentUserId P w)
           = (case map_of members ''sub'' of None \<Rightarrow> JUndefined | Some v \<Rightarrow> v))"
proof (cases "truthy (token w)")
  case False
  then have "getCurrentUserId P w = (JNull, w)"
    by (simp add: getCurrentUserId_def)
  with False show ?thesis
    by (simp add: isAuthenticated_def)
next
  case True
  show ?thesis
  proof (cases "decode_payload P (token w)")
    case (Inl e)
    with True have "getCurrentUserId P w = (JNull, console_error ''Token parsing error:'' w)"
      by (simp add: getCurrentUserId_def)
    with True Inl show ?thesis
      by (simp add: isAuthenticated_def)
  next
    case (Inr payload)
    show ?thesis
    proof (cases payload)
      case JsonNull
      with True Inr
      have "getCurrentUserId P w = (JNull, console_error ''Token parsing error:'' w)"
        by (simp add: getCurrentUserId_def)
      with True Inr JsonNull show ?thesis
        by (simp add: isAuthenticated_def)
    next
      case (JsonObj members)
      with True Inr
      have "getCurrentUserId P w
              = ((case map_of members ''sub'' of None \<Rightarrow> JUndefined | Some v \<Rightarrow> v), w)"
        by (simp add: getCurrentUserId_def split: option.splits)
      with True Inr JsonObj show ?thesis
        by (simp add: isAuthenticated_def)
    qed
  qed
qed

theorem getCurrentUserId_never_raises_witness:
  "isAuthenticated session
   \<and> fst (getCurrentUserId sample_platform session) = JStr ''u42''
   \<and> decode_payload sample_platform (token malformed_session) = Inl InvalidCharacterError
   \<and> fst (getCurrentUserId sample_platform malformed_session) = JNull
   \<and> \<not> isAuthenticated (clearTokens session)
   \<and> fst (getCurrentUserId sample_platform (clearTokens session)) = JNull"
proof -
  have a: "isAuthenticated session"
    by (simp add: isAuthenticated_def session_def jwt_def)
  have d: "decode_payload sample_platform (token session)
             = Inr (JsonObj [(''exp'', JNum 1000), (''sub'', JStr ''u42'')])"
    by (simp add: session_def decode_jwt)
  have g: "decode_payload sample_platform (token malformed_session) = Inl InvalidCharacterError"
    by (simp add: malformed_session_def decode_garbage)
  have c: "\<not> isAuthenticated (clearTokens session)"
    by (simp add: isAuthenticated_def)
  from getCurrentUserId_never_raises [of sample_platform session]
       getCurrentUserId_never_raises [of sample_platform malformed_session]
       getCurrentUserId_never_raises [of sample_platform "clearTokens session"]
       a d g c
  show ?thesis by simp
qed

end
